theory Spec2Isabelle
  imports Complex_Main "HOL-Library.Sublist"
begin

section \<open>Special modules of torchdistill (models/special.py)\<close>

text \<open>
  Every raise of the source is a value of \<open>error\<close>; a function that can raise returns
  \<open>error + 'a\<close> with \<open>Inl\<close> for the exception.  \<open>ValueError\<close> carries its message.
  Calls to \<open>logger.info\<close> and constructor calls are recorded as events, so that "nothing
  was constructed" is a statement about the event list.
\<close>

datatype error =
    TypeError
  | ValueError string
  | AttributeError
  | KeyError
  | UnboundLocalError
  | ZeroDivisionError
  | RuntimeError
  | IndexError
  | EinopsError

type_synonym 'v kwargs = "(string \<times> 'v) list"

subsection \<open>The registry: \<open>SPECIAL_CLASS_DICT\<close>, lines 13-20 and 724-741\<close>

text \<open>
  A class is its \<open>__name__\<close> and what calling it does: \<open>cls(*args, **kwargs)\<close> returns an
  instance or raises.
\<close>

record ('v, 'i) py_class =
  cls_name :: string
  cls_call :: "'v list \<Rightarrow> 'v kwargs \<Rightarrow> error + 'i"

type_synonym ('v, 'i) registry = "string \<rightharpoonup> ('v, 'i) py_class"

datatype 'v event =
    LogInfo string
  | Constructed string "'v list" "'v kwargs"

definition register_special_module ::
  "('v, 'i) registry \<Rightarrow> ('v, 'i) py_class \<Rightarrow> ('v, 'i) registry \<times> ('v, 'i) py_class" where
  "register_special_module d cls = (d(cls_name cls \<mapsto> cls), cls)"

text \<open>
  A call binds the first positional argument to the first parameter of the callee, so a
  keyword argument of that name is a second value for it: Python raises \<open>TypeError\<close> before
  the body runs.  For \<open>get_special_module(class_name, *args, **kwargs)\<close> that name is
  \<open>class_name\<close>, for \<open>build_special_module(model_config, **kwargs)\<close> it is \<open>model_config\<close>.
\<close>

definition get_special_module ::
  "('v, 'i) registry \<Rightarrow> string \<Rightarrow> 'v list \<Rightarrow> 'v kwargs \<Rightarrow> (error + 'i option) \<times> 'v event list" where
  "get_special_module d class_name args kwargs =
     (if ''class_name'' \<in> set (map fst kwargs) then (Inl TypeError, [])
      else case d class_name of
        None \<Rightarrow>
          (Inr None, [LogInfo (''No special module called `'' @ class_name @ ''` is registered.'')])
      | Some cls \<Rightarrow>
          (case cls_call cls args kwargs of
             Inl e \<Rightarrow> (Inl e, [Constructed class_name args kwargs])
           | Inr instance \<Rightarrow> (Inr (Some instance), [Constructed class_name args kwargs])))"

text \<open>
  The configuration read by \<open>build_special_module\<close>.  \<open>model_config.get('special', dict())\<close>
  finds the key absent, or holding a mapping, or holding a value that is no mapping, \<open>None\<close>
  among them; on the last the following \<open>.get('type', None)\<close> raises \<open>AttributeError\<close>.
  Inside the mapping, \<open>type\<close> is a string and \<open>params\<close> a mapping with string keys when they
  are present; for these two keys an absent key and a key that holds \<open>None\<close> read the same,
  so both are \<open>None\<close> here.
\<close>

record 'v special_config =
  sc_type :: "string option"
  sc_params :: "'v kwargs option"

datatype 'v special_entry =
    SpecialMapping "'v special_config"
  | SpecialOther

record 'v model_config =
  special :: "'v special_entry option"

text \<open>
  \<open>f(**kwargs, **params)\<close>: Python raises \<open>TypeError\<close> (multiple values for a keyword
  argument) before the callee runs when a key occurs in both mappings; otherwise the callee
  receives the keys of \<open>kwargs\<close> followed by those of \<open>params\<close>.
\<close>

definition merge_kwargs :: "'v kwargs \<Rightarrow> 'v kwargs \<Rightarrow> error + 'v kwargs" where
  "merge_kwargs kwargs params =
     (if list_ex (\<lambda>k. k \<in> set (map fst params)) (map fst kwargs) then Inl TypeError
      else Inr (kwargs @ params))"

definition build_special_module ::
  "('v, 'i) registry \<Rightarrow> 'v model_config \<Rightarrow> 'v kwargs \<Rightarrow> (error + 'i option) \<times> 'v event list" where
  "build_special_module d model_config kwargs =
     (if ''model_config'' \<in> set (map fst kwargs) then (Inl TypeError, [])
      else case special model_config of
        Some SpecialOther \<Rightarrow> (Inl AttributeError, [])
      | entry \<Rightarrow>
          (let special_model_config =
                 (case entry of
                    Some (SpecialMapping c) \<Rightarrow> c
                  | _ \<Rightarrow> \<lparr>sc_type = None, sc_params = None\<rparr>);
               special_model_type = sc_type special_model_config
           in case special_model_type of
                Some t \<Rightarrow>
                  (let special_model_params_config =
                         (case sc_params special_model_config of None \<Rightarrow> [] | Some p \<Rightarrow> p)
                   in case merge_kwargs kwargs special_model_params_config of
                        Inl e \<Rightarrow> (Inl e, [])
                      | Inr kw \<Rightarrow> get_special_module d t [] kw)
              | None \<Rightarrow> (Inr None, [])))"

definition special_type :: "'v model_config \<Rightarrow> string option" where
  \<comment> \<open>the nested key \<open>special.type\<close>, \<open>None\<close> when there is none\<close>
  "special_type model_config =
     (case special model_config of Some (SpecialMapping c) \<Rightarrow> sc_type c | _ \<Rightarrow> None)"

definition special_params :: "'v model_config \<Rightarrow> 'v kwargs" where
  \<comment> \<open>the nested key \<open>special.params\<close>, empty when there is none\<close>
  "special_params model_config =
     (case special model_config of
        Some (SpecialMapping c) \<Rightarrow> (case sc_params c of None \<Rightarrow> [] | Some p \<Rightarrow> p)
      | _ \<Rightarrow> [])"

definition bindE :: "error + 'a \<Rightarrow> ('a \<Rightarrow> error + 'b) \<Rightarrow> error + 'b" where
  "bindE m f = (case m of Inl e \<Rightarrow> Inl e | Inr x \<Rightarrow> f x)"

subsection \<open>Cyclic shift: \<open>CyclicShift\<close>, lines 215-221\<close>

text \<open>
  A tensor of shape (batch, height, width, channels) is a list of images, an image a list of
  rows, a row a list of pixels, a pixel a list of channel values.  \<open>torch.roll\<close> along one
  dimension of length \<open>n\<close> moves the element at index \<open>i\<close> to index \<open>(i + shift) mod n\<close>:
  the result at \<open>i\<close> is the input at \<open>(i - shift) mod n\<close>.  A dimension of length 0 stays
  empty.
\<close>

type_synonym 'a tensor4 = "'a list list list list"

definition roll_list :: "int \<Rightarrow> 'a list \<Rightarrow> 'a list" where
  "roll_list shift xs =
     map (\<lambda>i. xs ! nat ((int i - shift) mod int (length xs))) [0..<length xs]"

definition torch_roll_1_2 :: "int \<times> int \<Rightarrow> 'a tensor4 \<Rightarrow> 'a tensor4" where
  \<comment> \<open>\<open>torch.roll(x, shifts=(s1, s2), dims=(1, 2))\<close>\<close>
  "torch_roll_1_2 shifts x =
     map (\<lambda>image. map (roll_list (snd shifts)) (roll_list (fst shifts) image)) x"

record cyclic_shift =
  cs_displacement :: int

definition CyclicShift :: "int \<Rightarrow> cyclic_shift" where
  "CyclicShift d = \<lparr>cs_displacement = d\<rparr>"

definition CyclicShift_forward :: "cyclic_shift \<Rightarrow> 'a tensor4 \<Rightarrow> 'a tensor4" where
  "CyclicShift_forward self x = torch_roll_1_2 (cs_displacement self, cs_displacement self) x"

subsection \<open>Relative distances: \<open>get_relative_distances\<close>, lines 209-212\<close>

text \<open>
  \<open>indices\<close> lists \<open>[x, y]\<close> for \<open>x\<close> and \<open>y\<close> in \<open>range(window_size)\<close>, \<open>x\<close> outermost;
  \<open>distances[i][j] = indices[j] - indices[i]\<close>, coordinate by coordinate.  The definitions
  give the tables for a positive window size; at \<open>window_size = 0\<close> the code raises
  \<open>IndexError\<close>, which \<open>WindowAttention_init\<close> below returns as its error, and the tables
  here are empty.
\<close>

definition window_indices :: "nat \<Rightarrow> int list list" where
  "window_indices window_size =
     concat (map (\<lambda>x. map (\<lambda>y. [int x, int y]) [0..<window_size]) [0..<window_size])"

definition get_relative_distances :: "nat \<Rightarrow> int list list list" where
  "get_relative_distances window_size =
     (let indices = window_indices window_size
      in map (\<lambda>a. map (\<lambda>b. map2 (\<lambda>bc ac. bc - ac) b a) indices) indices)"

definition relative_indices_of :: "nat \<Rightarrow> int list list list" where
  \<comment> \<open>\<open>get_relative_distances(window_size) + window_size - 1\<close>, line 295\<close>
  "relative_indices_of window_size =
     map (map (map (\<lambda>c. c + int window_size - 1))) (get_relative_distances window_size)"

subsection \<open>Attention masks: \<open>create_mask\<close>, lines 256-269\<close>

text \<open>
  A logit is a finite number or \<open>-inf\<close>.  Adding \<open>-inf\<close> to either gives \<open>-inf\<close>.
\<close>

datatype logit = Fin real | NegInf

fun add_logit :: "logit \<Rightarrow> logit \<Rightarrow> logit" where
  "add_logit (Fin a) (Fin b) = Fin (a + b)"
| "add_logit _ _ = NegInf"

type_synonym matrix = "logit list list"

definition neg_index :: "nat \<Rightarrow> nat \<Rightarrow> nat" where
  \<comment> \<open>the position that the slice bound \<open>-k\<close> denotes in a sequence of length \<open>n\<close>:
      \<open>-0\<close> is \<open>0\<close>, and a bound before the start is clipped to \<open>0\<close>\<close>
  "neg_index k n = (if k = 0 then 0 else n - k)"

definition assign_block :: "(nat \<Rightarrow> bool) \<Rightarrow> (nat \<Rightarrow> bool) \<Rightarrow> 'a \<Rightarrow> 'a list list \<Rightarrow> 'a list list" where
  \<comment> \<open>\<open>m[rows, cols] = v\<close> for the rows and columns that the two slices select\<close>
  "assign_block rows cols v m =
     map (\<lambda>(i, r). map (\<lambda>(j, x). if rows i \<and> cols j then v else x) (enumerate 0 r))
       (enumerate 0 m)"

definition create_mask :: "nat \<Rightarrow> nat \<Rightarrow> bool \<Rightarrow> bool \<Rightarrow> matrix" where
  "create_mask window_size displacement upper_lower left_right =
     (let n = window_size ^ 2;
          mask = replicate n (replicate n (Fin 0));
          b = neg_index (displacement * window_size) n;
          mask = (if upper_lower
                  then assign_block (\<lambda>i. i < b) (\<lambda>j. b \<le> j) NegInf
                         (assign_block (\<lambda>i. b \<le> i) (\<lambda>j. j < b) NegInf mask)
                  else mask);
          c = neg_index displacement window_size
      in if left_right
         then assign_block (\<lambda>i. i mod window_size < c) (\<lambda>j. c \<le> j mod window_size) NegInf
                (assign_block (\<lambda>i. c \<le> i mod window_size) (\<lambda>j. j mod window_size < c) NegInf mask)
         else mask)"

text \<open>
  In the four-dimensional view \<open>(h1 w1) (h2 w2) -> h1 w1 h2 w2\<close> with \<open>h1 = h2 = window_size\<close>
  the row \<open>i\<close> of the mask is \<open>(i div window_size, i mod window_size)\<close>, so a slice of
  \<open>w1\<close> selects on \<open>i mod window_size\<close>.  The definition gives the mask for a positive window
  size; at \<open>window_size = 0\<close> the rearrangement raises, which \<open>WindowAttention_init\<close> below
  returns as its error.
\<close>


subsection \<open>Windowed attention: \<open>WindowAttention\<close>, lines 272-336\<close>

text \<open>
  The block keeps what its forward pass reads.  The two linear maps are their feature
  counts: \<open>to_qkv\<close> maps \<open>dim\<close> to \<open>3 * inner_dim\<close> features, \<open>to_out\<close> maps \<open>inner_dim\<close> to
  \<open>dim\<close>.  Sizes are natural numbers.  \<open>head_dim ** -0.5\<close> raises \<open>ZeroDivisionError\<close> at
  \<open>head_dim = 0\<close>; with \<open>window_size = 0\<close> the rearrangement inside \<open>create_mask\<close> divides by
  zero, and \<open>get_relative_distances\<close> indexes an index table that has one axis only, which
  raises \<open>IndexError\<close>.
\<close>

record window_attention =
  wa_dim :: nat
  wa_inner_dim :: nat
  wa_heads :: nat
  wa_window_size :: nat
  wa_relative_pos_embedding :: bool
  wa_shifted :: bool
  wa_cyclic_shift :: "cyclic_shift option"
  wa_cyclic_back_shift :: "cyclic_shift option"
  wa_upper_lower_mask :: "matrix option"
  wa_left_right_mask :: "matrix option"
  wa_relative_indices :: "int list list list option"
  wa_pos_embedding_shape :: "nat list"

definition WindowAttention_init ::
  "nat \<Rightarrow> nat \<Rightarrow> nat \<Rightarrow> bool \<Rightarrow> nat \<Rightarrow> bool \<Rightarrow> error + window_attention" where
  "WindowAttention_init dim' heads head_dim shifted window_size relative_pos_embedding =
     (let inner_dim = head_dim * heads;
          displacement = window_size div 2
      in if head_dim = 0 then Inl ZeroDivisionError
         else if shifted \<and> window_size = 0 then Inl ZeroDivisionError
         else if relative_pos_embedding \<and> window_size = 0 then Inl IndexError
         else Inr \<lparr>
           wa_dim = dim',
           wa_inner_dim = inner_dim,
           wa_heads = heads,
           wa_window_size = window_size,
           wa_relative_pos_embedding = relative_pos_embedding,
           wa_shifted = shifted,
           wa_cyclic_shift = (if shifted then Some (CyclicShift (- int displacement)) else None),
           wa_cyclic_back_shift = (if shifted then Some (CyclicShift (int displacement)) else None),
           wa_upper_lower_mask =
             (if shifted then Some (create_mask window_size displacement True False) else None),
           wa_left_right_mask =
             (if shifted then Some (create_mask window_size displacement False True) else None),
           wa_relative_indices =
             (if relative_pos_embedding then Some (relative_indices_of window_size) else None),
           wa_pos_embedding_shape =
             (if relative_pos_embedding then [2 * window_size - 1, 2 * window_size - 1]
              else [window_size ^ 2, window_size ^ 2])\<rparr>)"

subsubsection \<open>The masks of the shifted block, lines 323-325\<close>

text \<open>
  \<open>dots\<close> has the axes (batch, head, window, i, j).  Both statements take every batch and
  head and a slice of the window axis, and add a mask to each selected window:
  \<open>dots[:, :, -nw_w:] += upper_lower_mask\<close> and
  \<open>dots[:, :, nw_w - 1::nw_w] += left_right_mask\<close>.  A slice step of 0 raises \<open>ValueError\<close>.
  Window and mask are both of size \<open>window_size ** 2\<close> squared, so the sum is entry by entry.
\<close>

definition add_matrix :: "matrix \<Rightarrow> matrix \<Rightarrow> matrix" where
  "add_matrix w m = map2 (map2 add_logit) w m"

definition iadd_selected :: "(nat \<Rightarrow> bool) \<Rightarrow> matrix \<Rightarrow> matrix list \<Rightarrow> matrix list" where
  "iadd_selected sel m windows =
     map (\<lambda>(i, w). if sel i then add_matrix w m else w) (enumerate 0 windows)"

definition in_last :: "nat \<Rightarrow> nat \<Rightarrow> nat \<Rightarrow> bool" where
  \<comment> \<open>index \<open>i\<close> is in the slice \<open>[-k:]\<close> of a sequence of length \<open>n\<close>\<close>
  "in_last k n i = (neg_index k n \<le> i)"

definition in_stride :: "nat \<Rightarrow> nat \<Rightarrow> bool" where
  \<comment> \<open>index \<open>i\<close> is in the slice \<open>[k - 1::k]\<close>, for \<open>k > 0\<close>\<close>
  "in_stride k i = (k - 1 \<le> i \<and> (i - (k - 1)) mod k = 0)"

definition mask_windows :: "nat \<Rightarrow> matrix \<Rightarrow> matrix \<Rightarrow> matrix list \<Rightarrow> matrix list" where
  "mask_windows nw_w upper_lower_mask left_right_mask windows =
     iadd_selected (in_stride nw_w) left_right_mask
       (iadd_selected (in_last nw_w (length windows)) upper_lower_mask windows)"

definition add_shift_masks ::
  "nat \<Rightarrow> matrix \<Rightarrow> matrix \<Rightarrow> matrix list list list \<Rightarrow> error + matrix list list list" where
  "add_shift_masks nw_w upper_lower_mask left_right_mask dots =
     (if nw_w = 0 then Inl (ValueError ''slice step cannot be zero'')
      else Inr (map (map (mask_windows nw_w upper_lower_mask left_right_mask)) dots))"

definition forward_masks ::
  "window_attention \<Rightarrow> nat \<Rightarrow> matrix list list list \<Rightarrow> error + matrix list list list" where
  \<comment> \<open>lines 323-325 for an input of width \<open>n_w\<close>; \<open>nw_w = n_w // window_size\<close>, line 310\<close>
  "forward_masks self n_w dots =
     (if wa_window_size self = 0 then Inl ZeroDivisionError
      else case (wa_upper_lower_mask self, wa_left_right_mask self) of
             (Some ul, Some lr) \<Rightarrow>
               if wa_shifted self then add_shift_masks (n_w div wa_window_size self) ul lr dots
               else Inr dots
           | _ \<Rightarrow> if wa_shifted self then Inl AttributeError else Inr dots)"

text \<open>
  The same step as the specification words it: the first mask on the last \<open>window_size\<close>
  windows, the second on every \<open>window_size\<close>-th window from offset \<open>window_size - 1\<close>.
\<close>

definition claimed_mask_windows :: "nat \<Rightarrow> matrix \<Rightarrow> matrix \<Rightarrow> matrix list \<Rightarrow> matrix list" where
  "claimed_mask_windows window_size upper_lower_mask left_right_mask windows =
     iadd_selected (in_stride window_size) left_right_mask
       (iadd_selected (in_last window_size (length windows)) upper_lower_mask windows)"

subsubsection \<open>Shapes through the forward pass, lines 302-336\<close>

text \<open>
  The forward pass on shapes: every tensor is the list of its dimension sizes, and every
  library operation is what it does to the shape, with the checks it makes.
\<close>

type_synonym shape = "nat list"

definition linear_shape :: "nat \<Rightarrow> nat \<Rightarrow> shape \<Rightarrow> error + shape" where
  \<comment> \<open>\<open>nn.Linear(in_features, out_features)\<close> applied to a tensor\<close>
  "linear_shape in_features out_features s =
     (if s = [] then Inl RuntimeError
      else if last s \<noteq> in_features then Inl RuntimeError
      else Inr (butlast s @ [out_features]))"

definition chunk_sizes :: "nat \<Rightarrow> nat \<Rightarrow> nat list" where
  \<comment> \<open>the sizes of the pieces of \<open>torch.chunk(chunks)\<close> along a dimension of size \<open>n\<close>\<close>
  "chunk_sizes chunks n =
     (let split_size = (n + chunks - 1) div chunks
      in if split_size = 0 then replicate chunks 0
         else let num = max ((n + split_size - 1) div split_size) 1
              in map (\<lambda>i. if i + 1 < num then split_size else n - split_size * (num - 1))
                   [0..<num])"

definition chunk_last :: "nat \<Rightarrow> shape \<Rightarrow> error + shape list" where
  \<comment> \<open>\<open>.chunk(chunks, dim=-1)\<close>\<close>
  "chunk_last chunks s =
     (if s = [] then Inl IndexError
      else Inr (map (\<lambda>c. butlast s @ [c]) (chunk_sizes chunks (last s))))"

definition roll_shape :: "shape \<Rightarrow> error + shape" where
  \<comment> \<open>\<open>torch.roll(x, shifts, dims=(1, 2))\<close> needs the dimensions 1 and 2\<close>
  "roll_shape s = (if length s < 3 then Inl IndexError else Inr s)"

definition rearrange_to_windows :: "nat \<Rightarrow> nat \<Rightarrow> shape \<Rightarrow> error + shape" where
  \<comment> \<open>\<open>b (nw_h w_h) (nw_w w_w) (h d) -> b h (nw_h nw_w) (w_h w_w) d\<close> with \<open>h\<close>, \<open>w_h\<close>
      and \<open>w_w\<close> given\<close>
  "rearrange_to_windows h w s =
     (case s of
        [b, n_h, n_w, c] \<Rightarrow>
          if w = 0 \<or> h = 0 then Inl ZeroDivisionError
          else if n_h mod w \<noteq> 0 \<or> n_w mod w \<noteq> 0 \<or> c mod h \<noteq> 0 then Inl EinopsError
          else Inr [b, h, (n_h div w) * (n_w div w), w * w, c div h]
      | _ \<Rightarrow> Inl EinopsError)"

definition einsum_qk :: "shape \<Rightarrow> shape \<Rightarrow> error + shape" where
  \<comment> \<open>\<open>b h w i d, b h w j d -> b h w i j\<close>\<close>
  "einsum_qk q k =
     (case (q, k) of
        ([b, h, w, i, d], [b', h', w', j, d']) \<Rightarrow>
          if b = b' \<and> h = h' \<and> w = w' \<and> d = d' then Inr [b, h, w, i, j] else Inl RuntimeError
      | _ \<Rightarrow> Inl RuntimeError)"

definition einsum_av :: "shape \<Rightarrow> shape \<Rightarrow> error + shape" where
  \<comment> \<open>\<open>b h w i j, b h w j d -> b h w i d\<close>\<close>
  "einsum_av a v =
     (case (a, v) of
        ([b, h, w, i, j], [b', h', w', j', d]) \<Rightarrow>
          if b = b' \<and> h = h' \<and> w = w' \<and> j = j' then Inr [b, h, w, i, d] else Inl RuntimeError
      | _ \<Rightarrow> Inl RuntimeError)"

definition broadcastable_to :: "shape \<Rightarrow> shape \<Rightarrow> bool" where
  \<comment> \<open>\<open>other\<close> can be added in place to a tensor of shape \<open>s\<close>\<close>
  "broadcastable_to other s =
     (length other \<le> length s \<and>
      list_all2 (\<lambda>x y. x = y \<or> x = 1) other (drop (length s - length other) s))"

definition iadd_shape :: "shape \<Rightarrow> shape \<Rightarrow> error + shape" where
  \<comment> \<open>\<open>s += other\<close>\<close>
  "iadd_shape s other = (if broadcastable_to other s then Inr s else Inl RuntimeError)"

definition index_ok :: "nat \<Rightarrow> int \<Rightarrow> bool" where
  \<comment> \<open>an entry of an index tensor is accepted along a dimension of size \<open>n\<close>:
      negative entries count from the end\<close>
  "index_ok n i = (- int n \<le> i \<and> i < int n)"

definition pos_bias_shape :: "window_attention \<Rightarrow> error + shape" where
  \<comment> \<open>lines 318-321: the term added to \<open>dots\<close>\<close>
  "pos_bias_shape self =
     (if wa_relative_pos_embedding self
      then (case (wa_relative_indices self, wa_pos_embedding_shape self) of
              (Some ri, [r, c]) \<Rightarrow>
                if list_all (list_all (\<lambda>v. length v = 2 \<and> index_ok r (v ! 0) \<and> index_ok c (v ! 1))) ri
                   \<and> list_all (\<lambda>row. length row = length ri) ri
                then Inr [length ri, length ri]
                else Inl IndexError
            | _ \<Rightarrow> Inl AttributeError)
      else Inr (wa_pos_embedding_shape self))"

definition mask_shape :: "matrix option \<Rightarrow> error + shape" where
  "mask_shape m =
     (case m of
        None \<Rightarrow> Inl AttributeError
      | Some rows \<Rightarrow> Inr [length rows, (case rows of [] \<Rightarrow> 0 | r # _ \<Rightarrow> length r)])"

definition masks_shape :: "window_attention \<Rightarrow> nat \<Rightarrow> shape \<Rightarrow> error + shape" where
  \<comment> \<open>lines 323-325 on shapes: each sliced view of \<open>dots\<close> takes its mask by broadcasting\<close>
  "masks_shape self nw_w dots =
     (case dots of
        [b, h, w, i, j] \<Rightarrow>
          bindE (mask_shape (wa_upper_lower_mask self)) (\<lambda>ul.
          bindE (iadd_shape [b, h, w - neg_index nw_w w, i, j] ul) (\<lambda>_.
          if nw_w = 0 then Inl (ValueError ''slice step cannot be zero'')
          else bindE (mask_shape (wa_left_right_mask self)) (\<lambda>lr.
               bindE (iadd_shape [b, h, length (filter (in_stride nw_w) [0..<w]), i, j] lr) (\<lambda>_.
               Inr dots))))
      | _ \<Rightarrow> Inl IndexError)"

definition rearrange_from_windows :: "nat \<Rightarrow> nat \<Rightarrow> nat \<Rightarrow> nat \<Rightarrow> shape \<Rightarrow> error + shape" where
  \<comment> \<open>\<open>b h (nw_h nw_w) (w_h w_w) d -> b (nw_h w_h) (nw_w w_w) (h d)\<close> with \<open>h\<close>, \<open>w_h\<close>,
      \<open>w_w\<close>, \<open>nw_h\<close> and \<open>nw_w\<close> given\<close>
  "rearrange_from_windows h w nw_h nw_w s =
     (case s of
        [b, h', n, ww, d] \<Rightarrow>
          if h' \<noteq> h \<or> n \<noteq> nw_h * nw_w \<or> ww \<noteq> w * w then Inl EinopsError
          else Inr [b, nw_h * w, nw_w * w, h * d]
      | _ \<Rightarrow> Inl EinopsError)"

definition WindowAttention_forward_shape :: "window_attention \<Rightarrow> shape \<Rightarrow> error + shape" where
  "WindowAttention_forward_shape self x0 =
     bindE (if wa_shifted self then roll_shape x0 else Inr x0) (\<lambda>x.
     case x of
       [b, n_h, n_w, c] \<Rightarrow>
         bindE (linear_shape (wa_dim self) (wa_inner_dim self * 3) x) (\<lambda>qkv_all.
         bindE (chunk_last 3 qkv_all) (\<lambda>qkv.
         if wa_window_size self = 0 then Inl ZeroDivisionError
         else
           let nw_h = n_h div wa_window_size self;
               nw_w = n_w div wa_window_size self
           in case map (rearrange_to_windows (wa_heads self) (wa_window_size self)) qkv of
                [Inr q, Inr k, Inr v] \<Rightarrow>
                  bindE (einsum_qk q k) (\<lambda>dots.
                  bindE (pos_bias_shape self) (\<lambda>bias.
                  bindE (iadd_shape dots bias) (\<lambda>dots.
                  bindE (if wa_shifted self then masks_shape self nw_w dots else Inr dots) (\<lambda>attn.
                  bindE (einsum_av attn v) (\<lambda>out.
                  bindE (rearrange_from_windows (wa_heads self) (wa_window_size self) nw_h nw_w out) (\<lambda>out.
                  bindE (linear_shape (wa_inner_dim self) (wa_dim self) out) (\<lambda>out.
                  if wa_shifted self then roll_shape out else Inr out)))))))
              | [Inl e, _, _] \<Rightarrow> Inl e
              | [_, Inl e, _] \<Rightarrow> Inl e
              | [_, _, Inl e] \<Rightarrow> Inl e
              | _ \<Rightarrow> Inl (ValueError ''not enough values to unpack'')))
     | _ \<Rightarrow> Inl (ValueError (if length x < 4 then ''not enough values to unpack''
                             else ''too many values to unpack'')))"


subsection \<open>Paraphraser: \<open>Paraphraser4FactorTransfer.forward\<close>, lines 91-94\<close>

text \<open>
  The encoder and the decoder are the two \<open>nn.Sequential\<close> sub-networks, each a callable on
  tensors that returns a tensor or raises; \<open>training\<close> is the module's mode flag.
\<close>

record 't paraphraser =
  training :: bool
  encoder :: "'t \<Rightarrow> error + 't"
  decoder :: "'t \<Rightarrow> error + 't"

definition Paraphraser_forward :: "'t paraphraser \<Rightarrow> 't \<Rightarrow> error + 't" where
  "Paraphraser_forward self z =
     (if training self then bindE (encoder self z) (decoder self)
      else encoder self z)"

subsection \<open>Wrappers taking a teacher or a student: lines 548-565, 591-610, 625-635, 648-675\<close>

text \<open>
  \<open>redesign_model\<close>, \<open>load_module_ckpt\<close>, the file system and the layers of torch are not
  part of this file: they are parameters, each a function that returns its result or
  raises.  So is the function that wraps a module for distribution, through which every
  constructor below passes its student model and its own sub-network.  A model argument
  is \<open>None\<close> or a model.  \<open>HeadRCNN\<close> reads its models from \<open>**kwargs\<close> with \<open>kwargs.get\<close>,
  where a key holding \<open>None\<close> is found and yields \<open>None\<close>.
\<close>












subsection \<open>Attention embeddings: \<open>AttnEmbed.__init__\<close>, lines 425-457\<close>

text \<open>
  A module object carries the number of its allocation, so that two references to one
  object are told from two objects.  \<open>Embed(**embed_params)\<close>, \<open>wrap_if_distributed\<close> and the
  check that \<open>nn.ModuleDict\<close> makes on a key are parameters.  The local variable \<open>embed\<close> is
  \<open>None\<close> until its first assignment; reading it then raises \<open>UnboundLocalError\<close>.
\<close>

datatype 'e module = Identity nat | EmbedModule nat 'e








section \<open>Properties\<close>

subsection \<open>The registry\<close>

lemma merge_kwargs_disjoint:
  "set (map fst kwargs) \<inter> set (map fst params) = {} \<Longrightarrow> merge_kwargs kwargs params = Inr (kwargs @ params)"
  by (auto simp: merge_kwargs_def list_ex_iff)




lemma build_with_type:
  "''model_config'' \<notin> set (map fst kwargs) \<Longrightarrow> special_type cfg = Some t \<Longrightarrow>
   build_special_module d cfg kwargs =
     (case merge_kwargs kwargs (special_params cfg) of
        Inl e \<Rightarrow> (Inl e, [])
      | Inr kw \<Rightarrow> get_special_module d t [] kw)"
  by (auto simp: build_special_module_def special_type_def special_params_def Let_def
        split: option.splits special_entry.splits)





text \<open>
  Claim C1 as stated fails on a configuration whose \<open>special.params\<close> has the key
  \<open>class_name\<close>, which no keyword argument of the caller repeats: with the name \<open>Nope\<close>, which
  is not registered, the call raises \<open>TypeError\<close> instead of returning \<open>None\<close>; with the name
  \<open>X\<close>, registered just before, it raises \<open>TypeError\<close> and the class is not called.
\<close>

theorem registry_build_counterexample:
  "(Map.empty :: (nat, nat) registry) ''Nope'' = None \<and>
   build_special_module (Map.empty :: (nat, nat) registry)
       \<lparr>special = Some (SpecialMapping
          \<lparr>sc_type = Some ''Nope'', sc_params = Some [(''class_name'', 1)]\<rparr>)\<rparr> []
     = (Inl TypeError, []) \<and>
   build_special_module
       (fst (register_special_module Map.empty
          \<lparr>cls_name = ''X'', cls_call = (\<lambda>(args :: nat list) kw. Inr (length kw) :: error + nat)\<rparr>))
       \<lparr>special = Some (SpecialMapping
          \<lparr>sc_type = Some ''X'', sc_params = Some [(''class_name'', 1)]\<rparr>)\<rparr> []
     = (Inl TypeError, [])"
  by (simp add: build_special_module_def merge_kwargs_def get_special_module_def)

text \<open>
  Claim C1, amended.  Provided the caller's keyword arguments and \<open>special.params\<close> share no
  key, neither has the key \<open>class_name\<close>, and the keyword arguments do not repeat
  \<open>model_config\<close>: registration returns the class unchanged; after it, building with
  \<open>special.type\<close> equal to the name of the class calls that class once, with the caller's
  arguments followed by the parameters, and returns what the call returns, the instance or
  the exception of the constructor; building with a name that is not registered returns
  \<open>None\<close> and logs one message.  The lookup itself returns \<open>None\<close> for every name that is
  not registered, when its keyword arguments do not have the key \<open>class_name\<close>.
\<close>

theorem registry_register_then_build:
  "''model_config'' \<notin> set (map fst kwargs) \<Longrightarrow>
   ''class_name'' \<notin> set (map fst (kwargs @ special_params cfg)) \<Longrightarrow>
   set (map fst kwargs) \<inter> set (map fst (special_params cfg)) = {} \<Longrightarrow>
   snd (register_special_module d cls) = cls \<and>
   (special_type cfg = Some (cls_name cls) \<longrightarrow>
      build_special_module (fst (register_special_module d cls)) cfg kwargs =
        (case cls_call cls [] (kwargs @ special_params cfg) of
           Inl e \<Rightarrow> (Inl e, [Constructed (cls_name cls) [] (kwargs @ special_params cfg)])
         | Inr instance \<Rightarrow>
             (Inr (Some instance), [Constructed (cls_name cls) [] (kwargs @ special_params cfg)]))) \<and>
   (special_type cfg = Some t \<and> d t = None \<longrightarrow>
      build_special_module d cfg kwargs =
        (Inr None, [LogInfo (''No special module called `'' @ t @ ''` is registered.'')])) \<and>
   (d t = None \<and> ''class_name'' \<notin> set (map fst kw) \<longrightarrow>
      get_special_module d t args kw =
        (Inr None, [LogInfo (''No special module called `'' @ t @ ''` is registered.'')]))"
  by (simp add: build_with_type merge_kwargs_disjoint get_special_module_def
        register_special_module_def)

theorem registry_register_then_build_witness:
  "build_special_module
       (fst (register_special_module Map.empty
          \<lparr>cls_name = ''X'', cls_call = (\<lambda>(args :: nat list) kw. Inr (length kw) :: error + nat)\<rparr>))
       \<lparr>special = Some (SpecialMapping \<lparr>sc_type = Some ''X'', sc_params = Some [(''b'', 2)]\<rparr>)\<rparr>
       [(''a'', 1)]
     = (Inr (Some 2), [Constructed ''X'' [] [(''a'', 1), (''b'', 2)]]) \<and>
   fst (build_special_module (Map.empty :: (nat, nat) registry)
       \<lparr>special = Some (SpecialMapping \<lparr>sc_type = Some ''Nope'', sc_params = Some [(''b'', 2)]\<rparr>)\<rparr>
       [(''a'', 1)])
     = Inr None \<and>
   fst (get_special_module (Map.empty :: (nat, nat) registry) ''Nope'' [] [(''a'', 1)]) = Inr None"
proof -
  let ?x = "\<lparr>cls_name = ''X'', cls_call = (\<lambda>(args :: nat list) kw. Inr (length kw) :: error + nat)\<rparr>"
  let ?cx = "\<lparr>special = Some (SpecialMapping \<lparr>sc_type = Some ''X'', sc_params = Some [(''b'', 2::nat)]\<rparr>)\<rparr>"
  let ?cn = "\<lparr>special = Some (SpecialMapping \<lparr>sc_type = Some ''Nope'', sc_params = Some [(''b'', 2::nat)]\<rparr>)\<rparr>"
  have m: "''model_config'' \<notin> set (map fst [(''a'', 1::nat)])"
    by simp
  have cx: "''class_name'' \<notin> set (map fst ([(''a'', 1::nat)] @ special_params ?cx))"
    "set (map fst [(''a'', 1::nat)]) \<inter> set (map fst (special_params ?cx)) = {}"
    by (simp_all add: special_params_def)
  have cn: "''class_name'' \<notin> set (map fst ([(''a'', 1::nat)] @ special_params ?cn))"
    "set (map fst [(''a'', 1::nat)]) \<inter> set (map fst (special_params ?cn)) = {}"
    by (simp_all add: special_params_def)
  show ?thesis
    using registry_register_then_build [OF m cx, where d = Map.empty and cls = ?x
            and t = "''Nope''" and args = "[]" and kw = "[(''a'', 1)]"]
          registry_register_then_build [OF m cn, where d = "Map.empty :: (nat, nat) registry"
            and cls = ?x and t = "''Nope''" and args = "[]" and kw = "[(''a'', 1)]"]
    by (simp add: special_type_def special_params_def)
qed

subsection \<open>Cyclic shift and relative positions\<close>

lemma length_roll_list: "length (roll_list s xs) = length xs"
  by (simp add: roll_list_def)

lemma nth_roll_list:
  "i < length xs \<Longrightarrow> roll_list s xs ! i = xs ! nat ((int i - s) mod int (length xs))"
  by (simp add: roll_list_def)

lemma roll_list_inverse: "roll_list d (roll_list (- d) xs) = xs"
proof (rule nth_equalityI)
  show "length (roll_list d (roll_list (- d) xs)) = length xs"
    by (simp add: length_roll_list)
next
  fix i
  assume "i < length (roll_list d (roll_list (- d) xs))"
  then have i: "i < length xs"
    by (simp add: length_roll_list)
  let ?n = "int (length xs)"
  have n: "0 < ?n" using i by (cases xs) simp_all
  let ?j = "nat ((int i - d) mod ?n)"
  have j_lt: "?j < length xs"
    using n by (simp add: nat_less_iff)
  have j_int: "int ?j = (int i - d) mod ?n"
    using n by simp
  have "roll_list d (roll_list (- d) xs) ! i = roll_list (- d) xs ! ?j"
    using i by (simp add: nth_roll_list length_roll_list)
  also have "\<dots> = xs ! nat ((int ?j + d) mod ?n)"
    using j_lt by (simp add: nth_roll_list)
  also have "(int ?j + d) mod ?n = int i mod ?n"
    unfolding j_int by (simp add: mod_add_left_eq)
  also have "int i mod ?n = int i"
    using i by simp
  finally show "roll_list d (roll_list (- d) xs) ! i = xs ! i"
    by simp
qed

lemma roll_index_less:
  "i < length xs \<Longrightarrow> nat ((int i - s) mod int (length xs)) < length xs"
  by (cases xs) (simp_all add: nat_less_iff)

lemma roll_list_map: "roll_list s (map f xs) = map f (roll_list s xs)"
  by (rule nth_equalityI) (simp_all add: roll_list_def roll_index_less)

lemma torch_roll_round_trip: "torch_roll_1_2 (d, d) (torch_roll_1_2 (- d, - d) x) = x"
proof -
  have "map (roll_list d) (roll_list d (map (roll_list (- d)) (roll_list (- d) image))) = image"
    for image :: "'a list list list"
  proof -
    have "roll_list d (map (roll_list (- d)) (roll_list (- d) image))
            = map (roll_list (- d)) (roll_list d (roll_list (- d) image))"
      by (rule roll_list_map)
    then show ?thesis
      by (simp add: roll_list_inverse comp_def)
  qed
  then show ?thesis
    by (simp add: torch_roll_1_2_def comp_def)
qed

text \<open>
  Claim C3.  For every tensor with the axes (batch, height, width, channels) and every
  displacement \<open>d\<close>, the forward shift, a roll of the two spatial axes by \<open>- d\<close>, followed by
  the back shift, a roll by \<open>d\<close>, gives the tensor back.
\<close>

theorem cyclic_shift_round_trip:
  "CyclicShift_forward (CyclicShift d) (CyclicShift_forward (CyclicShift (- d)) x) = x"
  by (simp add: CyclicShift_forward_def CyclicShift_def torch_roll_round_trip)

lemma window_attention_shift_restores:
  "WindowAttention_init dm heads head_dim True window_size rel = Inr self \<Longrightarrow>
   \<exists>fwd back. wa_cyclic_shift self = Some fwd \<and> wa_cyclic_back_shift self = Some back \<and>
     CyclicShift_forward back (CyclicShift_forward fwd x) = x"
  by (auto simp: WindowAttention_init_def Let_def CyclicShift_forward_def CyclicShift_def
        torch_roll_round_trip split: if_splits)

lemma window_indices_bounds:
  "v \<in> set (window_indices w) \<Longrightarrow> c \<in> set v \<Longrightarrow> 0 \<le> c \<and> c \<le> int w - 1"
  by (auto simp: window_indices_def)

lemma relative_distance_bounds:
  assumes "row \<in> set (get_relative_distances w)" and "v \<in> set row" and "c \<in> set v"
  shows "- (int w - 1) \<le> c \<and> c \<le> int w - 1"
proof -
  from assms(1) obtain a where a: "a \<in> set (window_indices w)"
    and row: "row = map (\<lambda>b. map2 (\<lambda>bc ac. bc - ac) b a) (window_indices w)"
    by (auto simp: get_relative_distances_def Let_def)
  from assms(2) row obtain b where b: "b \<in> set (window_indices w)"
    and v: "v = map2 (\<lambda>bc ac. bc - ac) b a"
    by auto
  from assms(3) v obtain bc ac where "(bc, ac) \<in> set (zip b a)" and c: "c = bc - ac"
    by auto
  then have "bc \<in> set b" and "ac \<in> set a"
    by (auto dest: set_zip_leftD set_zip_rightD)
  with a b have "0 \<le> bc \<and> bc \<le> int w - 1" and "0 \<le> ac \<and> ac \<le> int w - 1"
    by (auto dest: window_indices_bounds)
  with c show ?thesis by linarith
qed

text \<open>
  Claim C4.  For every window size, each coordinate of each pairwise offset computed by
  \<open>get_relative_distances\<close> lies between \<open>- (window_size - 1)\<close> and \<open>window_size - 1\<close>, and
  each index into the table of relative position biases, the offset plus
  \<open>window_size - 1\<close>, lies between \<open>0\<close> and \<open>2 * window_size - 2\<close>.
\<close>

theorem relative_indices_in_table:
  "(\<forall>row \<in> set (get_relative_distances window_size). \<forall>v \<in> set row. \<forall>c \<in> set v.
      - (int window_size - 1) \<le> c \<and> c \<le> int window_size - 1) \<and>
   (\<forall>row \<in> set (relative_indices_of window_size). \<forall>v \<in> set row. \<forall>c \<in> set v.
      0 \<le> c \<and> c \<le> 2 * int window_size - 2)"
proof (intro conjI ballI)
  fix row v c
  assume "row \<in> set (get_relative_distances window_size)" "v \<in> set row" "c \<in> set v"
  then have "- (int window_size - 1) \<le> c \<and> c \<le> int window_size - 1"
    by (rule relative_distance_bounds)
  then show "- (int window_size - 1) \<le> c" and "c \<le> int window_size - 1"
    by simp_all
next
  fix row v c
  assume "row \<in> set (relative_indices_of window_size)" "v \<in> set row" "c \<in> set v"
  then obtain row' v' c' where "row' \<in> set (get_relative_distances window_size)"
      "v' \<in> set row'" "c' \<in> set v'" and c: "c = c' + int window_size - 1"
    by (auto simp: relative_indices_of_def)
  then have "- (int window_size - 1) \<le> c' \<and> c' \<le> int window_size - 1"
    by (auto dest: relative_distance_bounds)
  with c show "0 \<le> c" and "c \<le> 2 * int window_size - 2"
    by simp_all
qed

lemma get_relative_distances_2:
  "get_relative_distances 2 =
     [[[0, 0], [0, 1], [1, 0], [1, 1]], [[0, - 1], [0, 0], [1, - 1], [1, 0]],
      [[- 1, 0], [- 1, 1], [0, 0], [0, 1]], [[- 1, - 1], [- 1, 0], [0, - 1], [0, 0]]]"
  by (simp add: get_relative_distances_def window_indices_def upt_rec numeral_2_eq_2)

lemma relative_indices_of_2:
  "relative_indices_of 2 =
     [[[1, 1], [1, 2], [2, 1], [2, 2]], [[1, 0], [1, 1], [2, 0], [2, 1]],
      [[0, 1], [0, 2], [1, 1], [1, 2]], [[0, 0], [0, 1], [1, 0], [1, 1]]]"
  by (simp add: relative_indices_of_def get_relative_distances_2)

theorem relative_indices_in_table_witness:
  "- (int 2 - 1) \<le> get_relative_distances 2 ! 3 ! 0 ! 0 \<and>
   get_relative_distances 2 ! 0 ! 3 ! 0 \<le> int 2 - 1 \<and>
   0 \<le> relative_indices_of 2 ! 3 ! 0 ! 0 \<and>
   relative_indices_of 2 ! 0 ! 3 ! 0 \<le> 2 * int 2 - 2 \<and>
   set (concat (concat (get_relative_distances 2))) = {- 1, 0, 1} \<and>
   set (concat (concat (relative_indices_of 2))) = {0, 1, 2}"
proof -
  note t = relative_indices_in_table [of 2]
  have d3: "get_relative_distances 2 ! 3 \<in> set (get_relative_distances 2)"
    and d30: "get_relative_distances 2 ! 3 ! 0 \<in> set (get_relative_distances 2 ! 3)"
    and d300: "get_relative_distances 2 ! 3 ! 0 ! 0 \<in> set (get_relative_distances 2 ! 3 ! 0)"
    and d0: "get_relative_distances 2 ! 0 \<in> set (get_relative_distances 2)"
    and d03: "get_relative_distances 2 ! 0 ! 3 \<in> set (get_relative_distances 2 ! 0)"
    and d030: "get_relative_distances 2 ! 0 ! 3 ! 0 \<in> set (get_relative_distances 2 ! 0 ! 3)"
    by (simp_all add: get_relative_distances_2)
  have r3: "relative_indices_of 2 ! 3 \<in> set (relative_indices_of 2)"
    and r30: "relative_indices_of 2 ! 3 ! 0 \<in> set (relative_indices_of 2 ! 3)"
    and r300: "relative_indices_of 2 ! 3 ! 0 ! 0 \<in> set (relative_indices_of 2 ! 3 ! 0)"
    and r0: "relative_indices_of 2 ! 0 \<in> set (relative_indices_of 2)"
    and r03: "relative_indices_of 2 ! 0 ! 3 \<in> set (relative_indices_of 2 ! 0)"
    and r030: "relative_indices_of 2 ! 0 ! 3 ! 0 \<in> set (relative_indices_of 2 ! 0 ! 3)"
    by (simp_all add: relative_indices_of_2)
  have a: "- (int 2 - 1) \<le> get_relative_distances 2 ! 3 ! 0 ! 0"
    using t d3 d30 d300 by blast
  have b: "get_relative_distances 2 ! 0 ! 3 ! 0 \<le> int 2 - 1"
    using t d0 d03 d030 by blast
  have c: "0 \<le> relative_indices_of 2 ! 3 ! 0 ! 0"
    using t r3 r30 r300 by blast
  have d: "relative_indices_of 2 ! 0 ! 3 ! 0 \<le> 2 * int 2 - 2"
    using t r0 r03 r030 by blast
  have e: "set (concat (concat (get_relative_distances 2))) = {- 1, 0, 1}"
    by (auto simp: get_relative_distances_2)
  have f: "set (concat (concat (relative_indices_of 2))) = {0, 1, 2}"
    by (auto simp: relative_indices_of_2)
  from a b c d e f show ?thesis
    by (intro conjI)
qed


subsection \<open>Shapes of the windowed attention, and the paraphraser\<close>

lemma chunk_sizes_3: "0 < n \<Longrightarrow> chunk_sizes 3 (n * 3) = [n, n, n]"
proof -
  assume n: "0 < n"
  have s: "Suc (Suc (n * 3)) div 3 = n"
    by (rule div_nat_eqI) auto
  have m: "(4 * n - Suc 0) div n = 3"
    by (rule div_nat_eqI) (use n in auto)
  have u: "[0..<3] = [0, 1, 2]"
    by (simp add: upt_rec)
  show ?thesis
    using n by (simp add: chunk_sizes_def Let_def s m u)
qed

lemma replicate_3: "replicate 3 x = [x, x, x]"
  by (simp add: numeral_3_eq_3)

lemma chunk_sizes_3_zero: "chunk_sizes 3 0 = [0, 0, 0]"
  by (simp add: chunk_sizes_def replicate_3)

lemma chunk_sizes_3_all: "chunk_sizes 3 (n * 3) = [n, n, n]"
  by (cases "n = 0") (simp_all add: chunk_sizes_3 chunk_sizes_3_zero)

lemma window_forward_shape_plain:
  assumes heads: "0 < heads" and ws: "0 < window_size"
    and init: "WindowAttention_init dm heads head_dim False window_size False = Inr self"
    and h: "window_size dvd n_h" and w: "window_size dvd n_w"
  shows "WindowAttention_forward_shape self [b, n_h, n_w, dm] = Inr [b, n_h, n_w, dm]"
proof -
  from init have hd: "0 < head_dim"
    by (auto simp: WindowAttention_init_def Let_def split: if_splits)
  from init hd have self: "wa_dim self = dm" "wa_inner_dim self = head_dim * heads"
    "wa_heads self = heads" "wa_window_size self = window_size"
    "wa_relative_pos_embedding self = False" "wa_shifted self = False"
    "wa_pos_embedding_shape self = [window_size ^ 2, window_size ^ 2]"
    by (auto simp: WindowAttention_init_def Let_def split: if_splits)
  let ?inner = "head_dim * heads"
  let ?win = "[b, heads, (n_h div window_size) * (n_w div window_size), window_size * window_size, head_dim]"
  have lin: "linear_shape dm (?inner * 3) [b, n_h, n_w, dm] = Inr [b, n_h, n_w, ?inner * 3]"
    by (simp add: linear_shape_def)
  have chunk: "chunk_last 3 [b, n_h, n_w, ?inner * 3]
      = Inr [[b, n_h, n_w, ?inner], [b, n_h, n_w, ?inner], [b, n_h, n_w, ?inner]]"
    by (simp add: chunk_last_def chunk_sizes_3_all)
  have re: "rearrange_to_windows heads window_size [b, n_h, n_w, ?inner] = Inr ?win"
    using heads ws h w by (simp add: rearrange_to_windows_def dvd_eq_mod_eq_0)
  have qk: "einsum_qk ?win ?win = Inr [b, heads, (n_h div window_size) * (n_w div window_size),
      window_size * window_size, window_size * window_size]"
    by (simp add: einsum_qk_def)
  let ?dots = "[b, heads, (n_h div window_size) * (n_w div window_size),
      window_size * window_size, window_size * window_size]"
  have bias: "pos_bias_shape self = Inr [window_size ^ 2, window_size ^ 2]"
    by (simp add: pos_bias_shape_def self)
  have iadd: "iadd_shape ?dots [window_size ^ 2, window_size ^ 2] = Inr ?dots"
    by (simp add: iadd_shape_def broadcastable_to_def power2_eq_square)
  have av: "einsum_av ?dots ?win = Inr ?win"
    by (simp add: einsum_av_def)
  have merge: "rearrange_from_windows heads window_size (n_h div window_size) (n_w div window_size) ?win
      = Inr [b, n_h, n_w, heads * head_dim]"
    using h w by (simp add: rearrange_from_windows_def)
  have proj: "linear_shape ?inner dm [b, n_h, n_w, heads * head_dim] = Inr [b, n_h, n_w, dm]"
    by (simp add: linear_shape_def mult.commute)
  show ?thesis
    using ws
    by (simp add: WindowAttention_forward_shape_def self bindE_def lin chunk re qk bias iadd av merge proj)
qed

text \<open>
  Claim C5.  For a windowed attention block built with \<open>shifted = False\<close> and no relative
  position embedding, with at least one head and a positive window size: on every input of
  shape (batch, height, width, channels) whose channels equal the configured \<open>dim\<close> and
  whose height and width are multiples of the window size, the forward pass returns a tensor
  of the shape of its input.
\<close>

theorem window_attention_keeps_shape:
  "0 < heads \<Longrightarrow> 0 < window_size \<Longrightarrow>
   WindowAttention_init dm heads head_dim False window_size False = Inr self \<Longrightarrow>
   window_size dvd n_h \<Longrightarrow> window_size dvd n_w \<Longrightarrow>
   WindowAttention_forward_shape self [b, n_h, n_w, dm] = Inr [b, n_h, n_w, dm]"
  by (rule window_forward_shape_plain)

theorem window_attention_keeps_shape_witness:
  "(0::nat) < 2 \<and> (0::nat) < 2 \<and> (2::nat) dvd 4 \<and> (2::nat) dvd 6 \<and>
   (case WindowAttention_init 16 2 8 False 2 False of
      Inl e \<Rightarrow> False
    | Inr self \<Rightarrow> WindowAttention_forward_shape self [3, 4, 6, 16] = Inr [3, 4, 6, 16])"
proof -
  obtain self where init: "WindowAttention_init 16 2 8 False 2 False = Inr self"
    by (simp add: WindowAttention_init_def Let_def)
  have "WindowAttention_forward_shape self [3, 4, 6, 16] = Inr [3, 4, 6, 16]"
    using window_attention_keeps_shape [OF _ _ init, of 4 6 3] by simp
  with init show ?thesis by simp
qed

text \<open>
  Claim C6.  In training mode the paraphraser returns the decoder applied to the output of
  the encoder; in evaluation mode it returns the output of the encoder alone.
\<close>

theorem paraphraser_forward_modes:
  "(training self \<longrightarrow> Paraphraser_forward self z = bindE (encoder self z) (decoder self)) \<and>
   (\<not> training self \<longrightarrow> Paraphraser_forward self z = encoder self z)"
  by (simp add: Paraphraser_forward_def)

theorem paraphraser_forward_modes_witness:
  "Paraphraser_forward \<lparr>training = True, encoder = (\<lambda>z. Inr (z + 1)), decoder = (\<lambda>z. Inr (2 * z))\<rparr> (3::int)
     = Inr 8 \<and>
   Paraphraser_forward \<lparr>training = False, encoder = (\<lambda>z. Inr (z + 1)), decoder = (\<lambda>z. Inr (2 * z))\<rparr> (3::int)
     = Inr 4"
  using paraphraser_forward_modes
          [of "\<lparr>training = True, encoder = (\<lambda>z. Inr (z + 1)), decoder = (\<lambda>z. Inr (2 * z))\<rparr>" "3::int"]
        paraphraser_forward_modes
          [of "\<lparr>training = False, encoder = (\<lambda>z. Inr (z + 1)), decoder = (\<lambda>z. Inr (2 * z))\<rparr>" "3::int"]
  by (simp add: bindE_def)


subsection \<open>Wrappers without a backbone\<close>




subsection \<open>Masks of the shifted block\<close>

lemma nth_iadd_selected:
  "i < length windows \<Longrightarrow>
   iadd_selected sel m windows ! i = (if sel i then add_matrix (windows ! i) m else windows ! i)"
  by (simp add: iadd_selected_def nth_enumerate_eq)

lemma length_iadd_selected: "length (iadd_selected sel m windows) = length windows"
  by (simp add: iadd_selected_def)

lemma in_stride_iff: "0 < k \<Longrightarrow> in_stride k i \<longleftrightarrow> (i + 1) mod k = 0"
proof -
  assume k: "0 < k"
  have shift: "(i + 1) mod k = (i - (k - 1)) mod k" if le: "k - 1 \<le> i"
  proof -
    from le k have e: "i + 1 = (i - (k - 1)) + k" by arith
    have "(i + 1) mod k = ((i - (k - 1)) + k) mod k"
      using e by (rule arg_cong)
    also have "\<dots> = (i - (k - 1)) mod k"
      by (rule mod_add_self2)
    finally show ?thesis .
  qed
  show ?thesis
  proof
    assume "in_stride k i"
    then have le: "k - 1 \<le> i" and m: "(i - (k - 1)) mod k = 0"
      unfolding in_stride_def by blast+
    from shift [OF le] m show "(i + 1) mod k = 0" by (rule trans)
  next
    assume m: "(i + 1) mod k = 0"
    then have "k dvd i + 1" by (rule iffD1 [OF mod_eq_0_iff_dvd])
    then have "k \<le> i + 1" by (rule dvd_imp_le) simp
    then have le: "k - 1 \<le> i" by arith
    from shift [OF le, symmetric] m have "(i - (k - 1)) mod k = 0" by (rule trans)
    with le show "in_stride k i" unfolding in_stride_def by blast
  qed
qed

lemma nth_mask_windows:
  assumes "0 < nw_w" and "i < length windows"
  shows "mask_windows nw_w ul lr windows ! i =
     (let w = (if length windows - nw_w \<le> i then add_matrix (windows ! i) ul else windows ! i)
      in if (i + 1) mod nw_w = 0 then add_matrix w lr else w)"
  using assms
  by (simp add: mask_windows_def nth_iadd_selected length_iadd_selected in_stride_iff
        in_last_def neg_index_def Let_def)

text \<open>
  Claim C9, amended.  In the shifted block built by \<open>WindowAttention.__init__\<close>, on an input
  at least one window wide, the forward pass adds the two masks made by \<open>create_mask\<close> to
  the logits of every batch and head, and along the window axis: the upper-lower mask to the
  last \<open>nw_w\<close> windows and the left-right mask to every window whose index plus one is a
  multiple of \<open>nw_w\<close>, where \<open>nw_w = n_w div window_size\<close> is the number of windows in a
  row of windows.
\<close>

theorem masks_follow_window_columns:
  "0 < window_size \<Longrightarrow> window_size \<le> n_w \<Longrightarrow>
   WindowAttention_init dm heads head_dim True window_size rel = Inr self \<Longrightarrow>
   forward_masks self n_w dots =
     Inr (map (map (mask_windows (n_w div window_size)
                      (create_mask window_size (window_size div 2) True False)
                      (create_mask window_size (window_size div 2) False True))) dots) \<and>
   (\<forall>i < length windows.
      mask_windows (n_w div window_size) ul lr windows ! i =
        (let w = (if length windows - n_w div window_size \<le> i
                  then add_matrix (windows ! i) ul else windows ! i)
         in if (i + 1) mod (n_w div window_size) = 0 then add_matrix w lr else w))"
proof (intro conjI allI impI)
  assume ws: "0 < window_size" and le: "window_size \<le> n_w"
    and init: "WindowAttention_init dm heads head_dim True window_size rel = Inr self"
  from ws le have nw: "0 < n_w div window_size"
    by (simp add: div_greater_zero_iff)
  from init ws have self: "wa_window_size self = window_size" "wa_shifted self"
    "wa_upper_lower_mask self = Some (create_mask window_size (window_size div 2) True False)"
    "wa_left_right_mask self = Some (create_mask window_size (window_size div 2) False True)"
    by (auto simp: WindowAttention_init_def Let_def split: if_splits)
  show "forward_masks self n_w dots =
     Inr (map (map (mask_windows (n_w div window_size)
                      (create_mask window_size (window_size div 2) True False)
                      (create_mask window_size (window_size div 2) False True))) dots)"
    using ws nw by (simp add: forward_masks_def self add_shift_masks_def)
  fix i
  assume "i < length windows"
  with nw show "mask_windows (n_w div window_size) ul lr windows ! i =
        (let w = (if length windows - n_w div window_size \<le> i
                  then add_matrix (windows ! i) ul else windows ! i)
         in if (i + 1) mod (n_w div window_size) = 0 then add_matrix w lr else w)"
    by (rule nth_mask_windows)
qed

theorem masks_follow_window_columns_witness:
  "(0::nat) < 2 \<and> (2::nat) \<le> 6 \<and>
   (case WindowAttention_init 4 1 4 True 2 False of
      Inl e \<Rightarrow> False
    | Inr self \<Rightarrow>
        forward_masks self 6 [[replicate 3 (replicate 4 (replicate 4 (Fin 0)))]] =
          Inr [[[create_mask 2 1 True False, create_mask 2 1 True False,
                 add_matrix (create_mask 2 1 True False) (create_mask 2 1 False True)]]]) \<and>
   mask_windows (6 div 2) (create_mask 2 1 True False) (create_mask 2 1 False True)
       (replicate 3 (replicate 4 (replicate 4 (Fin 0)))) ! 2 =
     add_matrix (create_mask 2 1 True False) (create_mask 2 1 False True)"
proof -
  let ?z = "replicate 4 (replicate 4 (Fin 0))"
  let ?ul = "create_mask 2 1 True False"
  let ?lr = "create_mask 2 1 False True"
  obtain self where init: "WindowAttention_init 4 1 4 True 2 False = Inr self"
    by (simp add: WindowAttention_init_def Let_def)
  have ws: "(0::nat) < 2" and le: "(2::nat) \<le> 6"
    by simp_all
  note t = masks_follow_window_columns
    [OF ws le init, of "[[replicate 3 ?z]]" "replicate 3 ?z" ?ul ?lr]
  have d: "(2::nat) div 2 = 1" by simp
  have v: "map (map (mask_windows (6 div 2) ?ul ?lr)) [[replicate 3 ?z]] =
      [[[?ul, ?ul, add_matrix ?ul ?lr]]]"
    by code_simp
  have z: "add_matrix ?z ?ul = ?ul"
    by code_simp
  have a: "forward_masks self 6 [[replicate 3 ?z]] = Inr [[[?ul, ?ul, add_matrix ?ul ?lr]]]"
    using t [THEN conjunct1] unfolding d v .
  have len: "(2::nat) < length (replicate 3 ?z)"
    by simp
  have n: "replicate 3 ?z ! 2 = ?z"
    by simp
  have c: "length (replicate 3 ?z) - 6 div 2 \<le> (2::nat)" "((2::nat) + 1) mod (6 div 2) = 0"
    by simp_all
  have b: "mask_windows (6 div 2) ?ul ?lr (replicate 3 ?z) ! 2 = add_matrix ?ul ?lr"
    using t [THEN conjunct2, rule_format, OF len] unfolding Let_def n z if_P [OF c(1)] if_P [OF c(2)] .
  from init a have "case WindowAttention_init 4 1 4 True 2 False of
      Inl e \<Rightarrow> False
    | Inr self \<Rightarrow>
        forward_masks self 6 [[replicate 3 ?z]] = Inr [[[?ul, ?ul, add_matrix ?ul ?lr]]]"
    by (simp only: sum.case)
  with ws le b show ?thesis
    by (intro conjI)
qed

text \<open>
  Claim C9 as stated fails: with \<open>window_size = 2\<close> and an input 2 high and 6 wide there are
  three windows in one row.  The code adds the upper-lower mask to all three and the
  left-right mask to the last; the claim's wording gives the upper-lower mask to the last two
  and the left-right mask to the middle one.
\<close>

theorem masks_claimed_windows_counterexample:
  "mask_windows (6 div 2) (create_mask 2 1 True False) (create_mask 2 1 False True)
       (replicate 3 (replicate 4 (replicate 4 (Fin 0)))) =
     [create_mask 2 1 True False, create_mask 2 1 True False,
      add_matrix (create_mask 2 1 True False) (create_mask 2 1 False True)] \<and>
   claimed_mask_windows 2 (create_mask 2 1 True False) (create_mask 2 1 False True)
       (replicate 3 (replicate 4 (replicate 4 (Fin 0)))) =
     [replicate 4 (replicate 4 (Fin 0)),
      add_matrix (create_mask 2 1 True False) (create_mask 2 1 False True),
      create_mask 2 1 True False] \<and>
   create_mask 2 1 True False \<noteq> replicate 4 (replicate 4 (Fin 0)) \<and>
   add_matrix (create_mask 2 1 True False) (create_mask 2 1 False True) \<noteq> create_mask 2 1 True False"
  by code_simp


subsection \<open>Keys of the attention embeddings\<close>








end
